theory Spec2Isabelle
  imports Main "HOL-Library.Word" "HOL-Library.Sublist"
begin

section \<open>Library types the client is written against\<close>

subsection \<open>Form parameters (Go's \<open>url.Values\<close>)\<close>

text \<open>
  \<open>url.Values\<close> is \<open>map[string][]string\<close>.  Reading a key that is not there gives the
  nil slice; \<open>Add\<close> appends to the slice stored under the key, \<open>Set\<close> replaces it by a
  one-element slice.
\<close>

type_synonym Values = "string \<Rightarrow> string list option"

definition vals :: "Values \<Rightarrow> string \<Rightarrow> string list" where
  "vals v key = (case v key of None \<Rightarrow> [] | Some xs \<Rightarrow> xs)"

definition Values_Has :: "Values \<Rightarrow> string \<Rightarrow> bool" where
  "Values_Has v key = (case v key of None \<Rightarrow> False | Some xs \<Rightarrow> True)"

definition Values_Add :: "Values \<Rightarrow> string \<Rightarrow> string \<Rightarrow> Values" where
  "Values_Add v key x = v(key \<mapsto> vals v key @ [x])"

definition Values_Set :: "Values \<Rightarrow> string \<Rightarrow> string \<Rightarrow> Values" where
  "Values_Set v key x = v(key \<mapsto> [x])"

subsection \<open>Integers and their decimal form (Go's \<open>int\<close> and \<open>strconv.Itoa\<close>)\<close>

text \<open>Go's \<open>int\<close> on a 64-bit platform: a signed 64-bit integer.\<close>

type_synonym go_int = "64 word"

definition digit :: "nat \<Rightarrow> char" where
  "digit d = ''0123456789'' ! d"

function formatNat :: "nat \<Rightarrow> string" where
  "formatNat n = (if n < 10 then [digit n] else formatNat (n div 10) @ [digit (n mod 10)])"
  by pat_completeness auto
termination
  by (relation "measure (\<lambda>n. n)") auto

declare formatNat.simps [simp del]

text \<open>\<open>strconv.Itoa\<close>: base 10, a leading minus sign for a negative number.\<close>

definition Itoa :: "go_int \<Rightarrow> string" where
  "Itoa i = (if sint i < 0 then CHR ''-'' # formatNat (nat (- sint i)) else formatNat (nat (sint i)))"

text \<open>Reading a decimal string back, to say what "decimal" means.\<close>

definition digit_value :: "char \<Rightarrow> nat" where
  "digit_value c = of_char c - 48"

definition nat_of_decimal :: "string \<Rightarrow> nat" where
  "nat_of_decimal s = foldl (\<lambda>a c. 10 * a + digit_value c) 0 s"

definition int_of_decimal :: "string \<Rightarrow> int" where
  "int_of_decimal s =
     (case s of
        [] \<Rightarrow> 0
      | c # ds \<Rightarrow> if c = CHR ''-'' then - int (nat_of_decimal ds) else int (nat_of_decimal s))"

subsection \<open>Errors, panics and JSON numbers\<close>

text \<open>
  An \<open>error\<close> value is known by the text its \<open>Error()\<close> method returns; a nil error is
  \<open>None\<close>.  \<open>Errorf_s pre x\<close> is \<open>fmt.Errorf(pre + "%s", x)\<close> for a string \<open>x\<close>.
\<close>

datatype error = Error string

fun error_text :: "error \<Rightarrow> string" where
  "error_text (Error s) = s"

definition Errorf_s :: "string \<Rightarrow> string \<Rightarrow> error" where
  "Errorf_s pre x = Error (pre @ x)"

datatype panic = NilPointerDereference

text \<open>\<open>json.Number\<close> is a string type; its \<open>String\<close> method returns the string.\<close>

type_synonym Number = string

definition Number_String :: "Number \<Rightarrow> string" where
  "Number_String n = n"

section \<open>The transport collaborator\<close>

text \<open>
  Modelled from the spec: the \<open>Status\<close> type of the response envelope is declared with the
  client, outside the two service files.  Every response wraps a status code (a numeric
  string) and a human-readable message; the services read the fields \<open>Code\<close> and \<open>Message\<close>.
\<close>

record Status =
  Status_Code :: string
  Status_Message :: string

text \<open>
  The client is declared outside the two service files, so the services take what they use
  of it as parameters: \<open>common\<close>, the fresh form parameters that
  \<open>s.client.CommonParams.toPayLoad()\<close> returns, and \<open>post\<close>, the call
  \<open>s.client.post(method, payload, &envelope)\<close>.  The envelope passed in is always the zero
  value, so \<open>post\<close> returns the envelope as the call leaves it, after the \<open>*Response\<close>
  (nil is \<open>None\<close>) and the error.
\<close>

type_synonym ('r, 'w) post = "string \<Rightarrow> Values \<Rightarrow> 'r option \<times> error option \<times> 'w"

section \<open>Records (records.go)\<close>

definition methodRecordList :: string where "methodRecordList = ''Record.List''"
definition methodRecordCreate :: string where "methodRecordCreate = ''Record.Create''"
definition methodRecordInfo :: string where "methodRecordInfo = ''Record.Info''"
definition methodRecordRemove :: string where "methodRecordRemove = ''Record.Remove''"
definition methodRecordModify :: string where "methodRecordModify = ''Record.Modify''"

record Record =
  Record_ID :: string
  Record_Name :: string
  Record_Line :: string
  Record_LineID :: string
  Record_Type :: string
  Record_TTL :: string
  Record_Value :: string
  Record_MX :: string
  Record_Enabled :: string
  Record_Status :: string
  Record_MonitorStatus :: string
  Record_Remark :: string
  Record_UpdateOn :: string
  Record_UseAQB :: string
  Record_Weight :: "go_int option"

text \<open>The zero value \<open>Record{}\<close>.\<close>

definition Record_zero :: Record where
  "Record_zero =
     \<lparr>Record_ID = [], Record_Name = [], Record_Line = [], Record_LineID = [],
      Record_Type = [], Record_TTL = [], Record_Value = [], Record_MX = [],
      Record_Enabled = [], Record_Status = [], Record_MonitorStatus = [],
      Record_Remark = [], Record_UpdateOn = [], Record_UseAQB = [], Record_Weight = None\<rparr>"

record RecordModify =
  RecordModify_ID :: Number
  RecordModify_Name :: string
  RecordModify_Value :: string
  RecordModify_Status :: string

definition RecordModify_zero :: RecordModify where
  "RecordModify_zero =
     \<lparr>RecordModify_ID = [], RecordModify_Name = [], RecordModify_Value = [],
      RecordModify_Status = []\<rparr>"

record DomainInfo =
  DomainInfo_DomainTotal :: Number
  DomainInfo_AllTotal :: Number
  DomainInfo_MineTotal :: Number
  DomainInfo_ShareTotal :: Number
  DomainInfo_VipTotal :: Number
  DomainInfo_IsMarkTotal :: Number
  DomainInfo_PauseTotal :: Number
  DomainInfo_ErrorTotal :: Number
  DomainInfo_LockTotal :: Number
  DomainInfo_SpamTotal :: Number
  DomainInfo_VipExpire :: Number
  DomainInfo_ShareOutTotal :: Number

text \<open>The zero value \<open>DomainInfo{}\<close>.\<close>

definition DomainInfo_zero :: DomainInfo where
  "DomainInfo_zero =
     \<lparr>DomainInfo_DomainTotal = [], DomainInfo_AllTotal = [], DomainInfo_MineTotal = [],
      DomainInfo_ShareTotal = [], DomainInfo_VipTotal = [], DomainInfo_IsMarkTotal = [],
      DomainInfo_PauseTotal = [], DomainInfo_ErrorTotal = [], DomainInfo_LockTotal = [],
      DomainInfo_SpamTotal = [], DomainInfo_VipExpire = [], DomainInfo_ShareOutTotal = []\<rparr>"

text \<open>A slice that may be nil is an optional list.\<close>

record recordsWrapper =
  recordsWrapper_Status :: Status
  recordsWrapper_Info :: DomainInfo
  recordsWrapper_Records :: "Record list option"

record recordWrapper =
  recordWrapper_Status :: Status
  recordWrapper_Info :: DomainInfo
  recordWrapper_Record :: Record

record recordModifyWrapper =
  recordModifyWrapper_Status :: Status
  recordModifyWrapper_Record :: RecordModify

record RecordParam =
  RecordParam_DomainID :: string
  RecordParam_Domain :: string

definition RecordParam_ToURLValues :: "RecordParam \<Rightarrow> Values \<Rightarrow> Values" where
  "RecordParam_ToURLValues p v = v"

text \<open>\<open>ListParams\<close> embeds a pointer to a \<open>RecordParam\<close>, which may be nil.\<close>

record ListParams =
  ListParams_RecordParam :: "RecordParam option"
  ListParams_Offset :: string
  ListParams_Length :: string
  ListParams_SubDomain :: string
  ListParams_RecordType :: string
  ListParams_RecordLine :: string
  ListParams_RecordLineID :: string
  ListParams_keyword :: string

text \<open>
  The call \<open>p.RecordParam.ToURLValues(values)\<close> has a value receiver, so it reads through
  the embedded pointer and panics when it is nil.
\<close>

definition ListParams_ToURLValues :: "ListParams \<Rightarrow> Values \<Rightarrow> panic + Values" where
  "ListParams_ToURLValues p v0 =
     (case ListParams_RecordParam p of
        None \<Rightarrow> Inl NilPointerDereference
      | Some rp \<Rightarrow>
          let v = RecordParam_ToURLValues rp v0;
              v = (if ListParams_Offset p \<noteq> [] then Values_Add v ''offset'' (ListParams_Offset p) else v);
              v = (if ListParams_Length p \<noteq> [] then Values_Add v ''length'' (ListParams_Length p) else v);
              v = (if ListParams_SubDomain p \<noteq> [] then Values_Add v ''sub_domain'' (ListParams_SubDomain p) else v);
              v = (if ListParams_RecordType p \<noteq> [] then Values_Add v ''record_type'' (ListParams_RecordType p) else v);
              v = (if ListParams_RecordLine p \<noteq> [] then Values_Add v ''record_line'' (ListParams_RecordLine p) else v);
              v = (if ListParams_RecordLineID p \<noteq> [] then Values_Add v ''record_line_id'' (ListParams_RecordLineID p) else v);
              v = (if ListParams_keyword p \<noteq> [] then Values_Add v ''keyword'' (ListParams_keyword p) else v)
          in Inr v)"

subsection \<open>The payload each record operation builds\<close>

definition RecordsService_List_payload :: "Values \<Rightarrow> ListParams \<Rightarrow> panic + Values" where
  "RecordsService_List_payload common p =
     (case ListParams_ToURLValues p common of
        Inl e \<Rightarrow> Inl e
      | Inr v \<Rightarrow>
          (case ListParams_RecordParam p of
             None \<Rightarrow> Inl NilPointerDereference
           | Some rp \<Rightarrow>
               let v = (if RecordParam_DomainID rp \<noteq> [] then Values_Add v ''domain_id'' (RecordParam_DomainID rp) else v);
                   v = (if RecordParam_Domain rp \<noteq> [] then Values_Add v ''domain'' (RecordParam_Domain rp) else v);
                   v = (if ListParams_RecordType p \<noteq> [] then Values_Add v ''record_type'' (ListParams_RecordType p) else v)
               in Inr v))"

text \<open>\<open>Weight\<close> is a pointer to an \<open>int\<close>: nil is \<open>None\<close>.\<close>

definition RecordsService_Create_payload :: "Values \<Rightarrow> string \<Rightarrow> string \<Rightarrow> Record \<Rightarrow> Values" where
  "RecordsService_Create_payload common domain domainId r =
     (let v = Values_Add common ''domain'' domain;
          v = Values_Add v ''domain_id'' domainId;
          v = (if Record_Name r \<noteq> [] then Values_Add v ''sub_domain'' (Record_Name r) else v);
          v = (if Record_Type r \<noteq> [] then Values_Add v ''record_type'' (Record_Type r) else v);
          v = (if Record_Line r \<noteq> [] then Values_Add v ''record_line'' (Record_Line r) else v);
          v = (if Record_LineID r \<noteq> [] then Values_Add v ''record_line_id'' (Record_LineID r) else v);
          v = (if Record_Value r \<noteq> [] then Values_Add v ''value'' (Record_Value r) else v);
          v = (if Record_MX r \<noteq> [] then Values_Add v ''mx'' (Record_MX r) else v);
          v = (if Record_TTL r \<noteq> [] then Values_Add v ''ttl'' (Record_TTL r) else v);
          v = (if Record_Status r \<noteq> [] then Values_Add v ''status'' (Record_Status r) else v);
          v = (case Record_Weight r of None \<Rightarrow> v | Some w \<Rightarrow> Values_Add v ''weight'' (Itoa w))
      in v)"

definition RecordsService_Get_payload :: "Values \<Rightarrow> string \<Rightarrow> string \<Rightarrow> go_int \<Rightarrow> Values" where
  "RecordsService_Get_payload common domain domainId recordID =
     (let v = Values_Add common ''domain'' domain;
          v = Values_Add v ''domain_id'' domainId;
          v = Values_Add v ''record_id'' (Itoa recordID)
      in v)"

definition RecordsService_Update_payload ::
    "Values \<Rightarrow> string \<Rightarrow> string \<Rightarrow> string \<Rightarrow> Record \<Rightarrow> Values" where
  "RecordsService_Update_payload common domainId domain recordID r =
     (let v = Values_Add common ''domain_id'' domainId;
          v = Values_Add v ''domain'' domain;
          v = Values_Add v ''record_id'' recordID;
          v = (if Record_Name r \<noteq> [] then Values_Add v ''sub_domain'' (Record_Name r) else v);
          v = (if Record_Type r \<noteq> [] then Values_Add v ''record_type'' (Record_Type r) else v);
          v = (if Record_Line r \<noteq> [] then Values_Add v ''record_line'' (Record_Line r) else v);
          v = (if Record_LineID r \<noteq> [] then Values_Add v ''record_line_id'' (Record_LineID r) else v);
          v = (if Record_Value r \<noteq> [] then Values_Add v ''value'' (Record_Value r) else v);
          v = (if Record_MX r \<noteq> [] then Values_Add v ''mx'' (Record_MX r) else v);
          v = (if Record_TTL r \<noteq> [] then Values_Add v ''ttl'' (Record_TTL r) else v);
          v = (if Record_Status r \<noteq> [] then Values_Add v ''status'' (Record_Status r) else v);
          v = (case Record_Weight r of None \<Rightarrow> v | Some w \<Rightarrow> Values_Add v ''weight'' (Itoa w))
      in v)"

definition RecordsService_Delete_payload :: "Values \<Rightarrow> go_int \<Rightarrow> string \<Rightarrow> string \<Rightarrow> Values" where
  "RecordsService_Delete_payload common domainId domain recordID =
     (let v = Values_Add common ''domain_id'' (Itoa domainId);
          v = Values_Add v ''domain'' domain;
          v = Values_Add v ''record_id'' recordID
      in v)"

subsection \<open>The record operations\<close>

text \<open>
  Each operation builds its payload, posts it under its method name and reads the status of
  the envelope.  The results are the tuples the Go functions return.
\<close>

definition RecordsService_List ::
    "Values \<Rightarrow> ('r, recordsWrapper) post \<Rightarrow> ListParams
      \<Rightarrow> panic + (Record list option \<times> 'r option \<times> error option)" where
  "RecordsService_List common post p =
     (case RecordsService_List_payload common p of
        Inl e \<Rightarrow> Inl e
      | Inr payload \<Rightarrow>
          (case post methodRecordList payload of
             (res, err, wrappedRecords) \<Rightarrow>
               if err \<noteq> None then Inr (None, res, err)
               else if Status_Code (recordsWrapper_Status wrappedRecords) \<noteq> ''1''
                     \<and> Status_Code (recordsWrapper_Status wrappedRecords) \<noteq> ''10''
               then Inr (None, None,
                      Some (Errorf_s ''could not get domains: ''
                              (Status_Message (recordsWrapper_Status wrappedRecords))))
               else Inr (recordsWrapper_Records wrappedRecords, res, None)))"

definition RecordsService_Create ::
    "Values \<Rightarrow> ('r, recordWrapper) post \<Rightarrow> string \<Rightarrow> string \<Rightarrow> Record
      \<Rightarrow> Record \<times> 'r option \<times> error option" where
  "RecordsService_Create common post domain domainId recordAttributes =
     (case post methodRecordCreate
             (RecordsService_Create_payload common domain domainId recordAttributes) of
        (res, err, returnedRecord) \<Rightarrow>
          if err \<noteq> None then (Record_zero, res, err)
          else if Status_Code (recordWrapper_Status returnedRecord) \<noteq> ''1''
          then (recordWrapper_Record returnedRecord, None,
                 Some (Errorf_s ''could not create domains: ''
                         (Status_Message (recordWrapper_Status returnedRecord))))
          else (recordWrapper_Record returnedRecord, res, None))"

definition RecordsService_Get ::
    "Values \<Rightarrow> ('r, recordWrapper) post \<Rightarrow> string \<Rightarrow> string \<Rightarrow> go_int
      \<Rightarrow> Record \<times> 'r option \<times> error option" where
  "RecordsService_Get common post domain domainId recordID =
     (case post methodRecordInfo (RecordsService_Get_payload common domain domainId recordID) of
        (res, err, returnedRecord) \<Rightarrow>
          if err \<noteq> None then (Record_zero, res, err)
          else if Status_Code (recordWrapper_Status returnedRecord) \<noteq> ''1''
          then (recordWrapper_Record returnedRecord, None,
                 Some (Errorf_s ''could not get domains: ''
                         (Status_Message (recordWrapper_Status returnedRecord))))
          else (recordWrapper_Record returnedRecord, res, None))"

definition RecordsService_Update ::
    "Values \<Rightarrow> ('r, recordModifyWrapper) post \<Rightarrow> string \<Rightarrow> string \<Rightarrow> string \<Rightarrow> Record
      \<Rightarrow> RecordModify \<times> 'r option \<times> error option" where
  "RecordsService_Update common post domainId domain recordID recordAttributes =
     (case post methodRecordModify
             (RecordsService_Update_payload common domainId domain recordID recordAttributes) of
        (res, err, returnedRecord) \<Rightarrow>
          if err \<noteq> None then (RecordModify_zero, res, err)
          else if Status_Code (recordModifyWrapper_Status returnedRecord) \<noteq> ''1''
          then (recordModifyWrapper_Record returnedRecord, None,
                 Some (Errorf_s ''could not get domains: ''
                         (Status_Message (recordModifyWrapper_Status returnedRecord))))
          else (recordModifyWrapper_Record returnedRecord, res, None))"

definition RecordsService_Delete ::
    "Values \<Rightarrow> ('r, recordWrapper) post \<Rightarrow> go_int \<Rightarrow> string \<Rightarrow> string
      \<Rightarrow> 'r option \<times> error option" where
  "RecordsService_Delete common post domainId domain recordID =
     (case post methodRecordRemove
             (RecordsService_Delete_payload common domainId domain recordID) of
        (res, err, returnedRecord) \<Rightarrow>
          if err \<noteq> None then (res, err)
          else if Status_Code (recordWrapper_Status returnedRecord) \<noteq> ''1''
          then (None,
                 Some (Errorf_s ''could not get domains: ''
                         (Status_Message (recordWrapper_Status returnedRecord))))
          else (res, None))"

section \<open>Domains (the second source file)\<close>

definition methodDomainList :: string where "methodDomainList = ''Domain.List''"
definition methodDomainCreate :: string where "methodDomainCreate = ''Domain.Create''"
definition methodDomainInfo :: string where "methodDomainInfo = ''Domain.Info''"
definition methodDomainRemove :: string where "methodDomainRemove = ''Domain.Remove''"

record Domain =
  Domain_ID :: Number
  Domain_Name :: string
  Domain_PunyCode :: string
  Domain_Grade :: string
  Domain_GradeTitle :: string
  Domain_Status :: string
  Domain_ExtStatus :: string
  Domain_Records :: string
  Domain_GroupID :: Number
  Domain_IsMark :: string
  Domain_Remark :: string
  Domain_IsVIP :: string
  Domain_SearchenginePush :: string
  Domain_UserID :: string
  Domain_CreatedOn :: string
  Domain_UpdatedOn :: string
  Domain_TTL :: string
  Domain_CNameSpeedUp :: string
  Domain_Owner :: string
  Domain_AuthToAnquanBao :: bool

text \<open>The zero value \<open>Domain{}\<close>.\<close>

definition Domain_zero :: Domain where
  "Domain_zero =
     \<lparr>Domain_ID = [], Domain_Name = [], Domain_PunyCode = [], Domain_Grade = [],
      Domain_GradeTitle = [], Domain_Status = [], Domain_ExtStatus = [], Domain_Records = [],
      Domain_GroupID = [], Domain_IsMark = [], Domain_Remark = [], Domain_IsVIP = [],
      Domain_SearchenginePush = [], Domain_UserID = [], Domain_CreatedOn = [],
      Domain_UpdatedOn = [], Domain_TTL = [], Domain_CNameSpeedUp = [], Domain_Owner = [],
      Domain_AuthToAnquanBao = False\<rparr>"

record domainListWrapper =
  domainListWrapper_Status :: Status
  domainListWrapper_Info :: DomainInfo
  domainListWrapper_Domains :: "Domain list option"

record domainWrapper =
  domainWrapper_Status :: Status
  domainWrapper_Info :: DomainInfo
  domainWrapper_Domain :: Domain

definition DomainsService_List_payload :: "Values \<Rightarrow> Values" where
  "DomainsService_List_payload common = common"

definition DomainsService_Create_payload :: "Values \<Rightarrow> Domain \<Rightarrow> Values" where
  "DomainsService_Create_payload common domainAttributes =
     (let v = Values_Set common ''domain'' (Domain_Name domainAttributes);
          v = Values_Set v ''group_id'' (Number_String (Domain_GroupID domainAttributes));
          v = Values_Set v ''is_mark'' (Domain_IsMark domainAttributes)
      in v)"

definition DomainsService_Get_payload :: "Values \<Rightarrow> string \<Rightarrow> string \<Rightarrow> Values" where
  "DomainsService_Get_payload common id' domain =
     (let v = Values_Set common ''domain_id'' id';
          v = Values_Set v ''domain'' domain
      in v)"

definition DomainsService_Delete_payload :: "Values \<Rightarrow> string \<Rightarrow> string \<Rightarrow> Values" where
  "DomainsService_Delete_payload common id' domain =
     (let v = Values_Set common ''domain_id'' id';
          v = Values_Set v ''domain'' domain
      in v)"

definition DomainsService_List ::
    "Values \<Rightarrow> ('r, domainListWrapper) post
      \<Rightarrow> Domain list option \<times> 'r option \<times> error option" where
  "DomainsService_List common post =
     (case post methodDomainList (DomainsService_List_payload common) of
        (res, err, returnedDomains) \<Rightarrow>
          if err \<noteq> None then (None, res, err)
          else if Status_Code (domainListWrapper_Status returnedDomains) \<noteq> ''1''
          then (None, None,
                 Some (Errorf_s ''could not get domains: ''
                         (Status_Message (domainListWrapper_Status returnedDomains))))
          else (domainListWrapper_Domains returnedDomains, res, None))"

definition DomainsService_Create ::
    "Values \<Rightarrow> ('r, domainWrapper) post \<Rightarrow> Domain \<Rightarrow> Domain \<times> 'r option \<times> error option" where
  "DomainsService_Create common post domainAttributes =
     (case post methodDomainCreate (DomainsService_Create_payload common domainAttributes) of
        (res, err, returnedDomain) \<Rightarrow>
          if err \<noteq> None then (Domain_zero, res, err)
          else (domainWrapper_Domain returnedDomain, res, None))"

definition DomainsService_Get ::
    "Values \<Rightarrow> ('r, domainWrapper) post \<Rightarrow> string \<Rightarrow> string
      \<Rightarrow> Domain \<times> 'r option \<times> error option" where
  "DomainsService_Get common post id' domain =
     (case post methodDomainInfo (DomainsService_Get_payload common id' domain) of
        (res, err, returnedDomain) \<Rightarrow>
          if err \<noteq> None then (Domain_zero, res, err)
          else (domainWrapper_Domain returnedDomain, res, None))"

definition DomainsService_Delete ::
    "Values \<Rightarrow> ('r, domainWrapper) post \<Rightarrow> string \<Rightarrow> string \<Rightarrow> 'r option \<times> error option" where
  "DomainsService_Delete common post id' domain =
     (case post methodDomainRemove (DomainsService_Delete_payload common id' domain) of
        (res, err, returnedDomain) \<Rightarrow> (res, err))"

section \<open>The optional attributes of a record\<close>

text \<open>
  The optional attributes of a record, each with the key that \<open>Create\<close> and \<open>Update\<close>
  send it under: sub-domain name, type, line, line ID, value, MX, TTL and status.
\<close>

definition optional_record_fields :: "Record \<Rightarrow> (string \<times> string) list" where
  "optional_record_fields r =
     [(''sub_domain'', Record_Name r), (''record_type'', Record_Type r),
      (''record_line'', Record_Line r), (''record_line_id'', Record_LineID r),
      (''value'', Record_Value r), (''mx'', Record_MX r), (''ttl'', Record_TTL r),
      (''status'', Record_Status r)]"

section \<open>Reading a payload\<close>

lemma vals_Add [simp]:
  "vals (Values_Add v k x) k' = vals v k' @ (if k' = k then [x] else [])"
  by (simp add: vals_def Values_Add_def)

lemma Has_Add [simp]: "Values_Has (Values_Add v k x) k' = (Values_Has v k' \<or> k' = k)"
  by (auto simp: Values_Has_def Values_Add_def)

lemma vals_Set [simp]: "vals (Values_Set v k x) k' = (if k' = k then [x] else vals v k')"
  by (simp add: vals_def Values_Set_def)

lemma Has_Set [simp]: "Values_Has (Values_Set v k x) k' = (k' = k \<or> Values_Has v k')"
  by (simp add: Values_Has_def Values_Set_def)

text \<open>The guarded \<open>Add\<close> of the record operations, read without a case split.\<close>

lemma vals_if_Add [simp]:
  "vals (if c then Values_Add v k x else v) k' =
     vals v k' @ (if c \<and> k' = k then [x] else [])"
  by simp

lemma Has_if_Add [simp]:
  "Values_Has (if c then Values_Add v k x else v) k' = (Values_Has v k' \<or> c \<and> k' = k)"
  by simp

lemma vals_case_Add [simp]:
  "vals (case w of None \<Rightarrow> v | Some i \<Rightarrow> Values_Add v k (f i)) k' =
     vals v k' @ (if k' = k then (case w of None \<Rightarrow> [] | Some i \<Rightarrow> [f i]) else [])"
  by (simp split: option.splits)

lemma Has_case_Add [simp]:
  "Values_Has (case w of None \<Rightarrow> v | Some i \<Rightarrow> Values_Add v k (f i)) k' =
     (Values_Has v k' \<or> w \<noteq> None \<and> k' = k)"
  by (simp split: option.splits)

lemma vals_absent: "\<not> Values_Has v k \<Longrightarrow> vals v k = []"
  by (simp add: Values_Has_def vals_def split: option.splits)

lemma vals_Create_payload:
  "vals (RecordsService_Create_payload common domain domainId r) key =
     vals common key
     @ (if key = ''domain'' then [domain] else [])
     @ (if key = ''domain_id'' then [domainId] else [])
     @ (if Record_Name r \<noteq> [] \<and> key = ''sub_domain'' then [Record_Name r] else [])
     @ (if Record_Type r \<noteq> [] \<and> key = ''record_type'' then [Record_Type r] else [])
     @ (if Record_Line r \<noteq> [] \<and> key = ''record_line'' then [Record_Line r] else [])
     @ (if Record_LineID r \<noteq> [] \<and> key = ''record_line_id'' then [Record_LineID r] else [])
     @ (if Record_Value r \<noteq> [] \<and> key = ''value'' then [Record_Value r] else [])
     @ (if Record_MX r \<noteq> [] \<and> key = ''mx'' then [Record_MX r] else [])
     @ (if Record_TTL r \<noteq> [] \<and> key = ''ttl'' then [Record_TTL r] else [])
     @ (if Record_Status r \<noteq> [] \<and> key = ''status'' then [Record_Status r] else [])
     @ (if key = ''weight'' then (case Record_Weight r of None \<Rightarrow> [] | Some w \<Rightarrow> [Itoa w])
        else [])"
  unfolding RecordsService_Create_payload_def Let_def
  by (simp only: vals_Add vals_if_Add vals_case_Add append_assoc)

lemma Has_Create_payload:
  "Values_Has (RecordsService_Create_payload common domain domainId r) key =
     (Values_Has common key \<or> key = ''domain'' \<or> key = ''domain_id''
      \<or> Record_Name r \<noteq> [] \<and> key = ''sub_domain''
      \<or> Record_Type r \<noteq> [] \<and> key = ''record_type''
      \<or> Record_Line r \<noteq> [] \<and> key = ''record_line''
      \<or> Record_LineID r \<noteq> [] \<and> key = ''record_line_id''
      \<or> Record_Value r \<noteq> [] \<and> key = ''value''
      \<or> Record_MX r \<noteq> [] \<and> key = ''mx''
      \<or> Record_TTL r \<noteq> [] \<and> key = ''ttl''
      \<or> Record_Status r \<noteq> [] \<and> key = ''status''
      \<or> Record_Weight r \<noteq> None \<and> key = ''weight'')"
  unfolding RecordsService_Create_payload_def Let_def
  by (simp only: Has_Add Has_if_Add Has_case_Add disj_assoc)

lemma vals_Update_payload:
  "vals (RecordsService_Update_payload common domainId domain recordID r) key =
     vals common key
     @ (if key = ''domain_id'' then [domainId] else [])
     @ (if key = ''domain'' then [domain] else [])
     @ (if key = ''record_id'' then [recordID] else [])
     @ (if Record_Name r \<noteq> [] \<and> key = ''sub_domain'' then [Record_Name r] else [])
     @ (if Record_Type r \<noteq> [] \<and> key = ''record_type'' then [Record_Type r] else [])
     @ (if Record_Line r \<noteq> [] \<and> key = ''record_line'' then [Record_Line r] else [])
     @ (if Record_LineID r \<noteq> [] \<and> key = ''record_line_id'' then [Record_LineID r] else [])
     @ (if Record_Value r \<noteq> [] \<and> key = ''value'' then [Record_Value r] else [])
     @ (if Record_MX r \<noteq> [] \<and> key = ''mx'' then [Record_MX r] else [])
     @ (if Record_TTL r \<noteq> [] \<and> key = ''ttl'' then [Record_TTL r] else [])
     @ (if Record_Status r \<noteq> [] \<and> key = ''status'' then [Record_Status r] else [])
     @ (if key = ''weight'' then (case Record_Weight r of None \<Rightarrow> [] | Some w \<Rightarrow> [Itoa w])
        else [])"
  unfolding RecordsService_Update_payload_def Let_def
  by (simp only: vals_Add vals_if_Add vals_case_Add append_assoc)

lemma Has_Update_payload:
  "Values_Has (RecordsService_Update_payload common domainId domain recordID r) key =
     (Values_Has common key \<or> key = ''domain_id'' \<or> key = ''domain'' \<or> key = ''record_id''
      \<or> Record_Name r \<noteq> [] \<and> key = ''sub_domain''
      \<or> Record_Type r \<noteq> [] \<and> key = ''record_type''
      \<or> Record_Line r \<noteq> [] \<and> key = ''record_line''
      \<or> Record_LineID r \<noteq> [] \<and> key = ''record_line_id''
      \<or> Record_Value r \<noteq> [] \<and> key = ''value''
      \<or> Record_MX r \<noteq> [] \<and> key = ''mx''
      \<or> Record_TTL r \<noteq> [] \<and> key = ''ttl''
      \<or> Record_Status r \<noteq> [] \<and> key = ''status''
      \<or> Record_Weight r \<noteq> None \<and> key = ''weight'')"
  unfolding RecordsService_Update_payload_def Let_def
  by (simp only: Has_Add Has_if_Add Has_case_Add disj_assoc)

lemma List_payload_Inr:
  assumes "ListParams_RecordParam p = Some rp"
  shows "\<exists>payload. RecordsService_List_payload common p = Inr payload"
  using assms
  by (simp add: RecordsService_List_payload_def ListParams_ToURLValues_def Let_def)

lemma vals_ToURLValues:
  assumes "ListParams_ToURLValues p common = Inr v"
  shows "vals v key =
     vals common key
     @ (if ListParams_Offset p \<noteq> [] \<and> key = ''offset'' then [ListParams_Offset p] else [])
     @ (if ListParams_Length p \<noteq> [] \<and> key = ''length'' then [ListParams_Length p] else [])
     @ (if ListParams_SubDomain p \<noteq> [] \<and> key = ''sub_domain'' then [ListParams_SubDomain p] else [])
     @ (if ListParams_RecordType p \<noteq> [] \<and> key = ''record_type'' then [ListParams_RecordType p] else [])
     @ (if ListParams_RecordLine p \<noteq> [] \<and> key = ''record_line'' then [ListParams_RecordLine p] else [])
     @ (if ListParams_RecordLineID p \<noteq> [] \<and> key = ''record_line_id'' then [ListParams_RecordLineID p] else [])
     @ (if ListParams_keyword p \<noteq> [] \<and> key = ''keyword'' then [ListParams_keyword p] else [])"
proof (cases "ListParams_RecordParam p")
  case None
  with assms show ?thesis
    by (simp add: ListParams_ToURLValues_def)
next
  case (Some rp)
  have "Inr v = ListParams_ToURLValues p common"
    using assms by simp
  then show ?thesis
    unfolding ListParams_ToURLValues_def Let_def Some RecordParam_ToURLValues_def
      option.case sum.inject
    by (simp only: vals_if_Add append_assoc)
qed

lemma vals_List_payload:
  assumes "ListParams_RecordParam p = Some rp"
    and "RecordsService_List_payload common p = Inr payload"
  shows "vals payload key =
     vals common key
     @ (if ListParams_Offset p \<noteq> [] \<and> key = ''offset'' then [ListParams_Offset p] else [])
     @ (if ListParams_Length p \<noteq> [] \<and> key = ''length'' then [ListParams_Length p] else [])
     @ (if ListParams_SubDomain p \<noteq> [] \<and> key = ''sub_domain'' then [ListParams_SubDomain p] else [])
     @ (if ListParams_RecordType p \<noteq> [] \<and> key = ''record_type'' then [ListParams_RecordType p] else [])
     @ (if ListParams_RecordLine p \<noteq> [] \<and> key = ''record_line'' then [ListParams_RecordLine p] else [])
     @ (if ListParams_RecordLineID p \<noteq> [] \<and> key = ''record_line_id'' then [ListParams_RecordLineID p] else [])
     @ (if ListParams_keyword p \<noteq> [] \<and> key = ''keyword'' then [ListParams_keyword p] else [])
     @ (if RecordParam_DomainID rp \<noteq> [] \<and> key = ''domain_id'' then [RecordParam_DomainID rp] else [])
     @ (if RecordParam_Domain rp \<noteq> [] \<and> key = ''domain'' then [RecordParam_Domain rp] else [])
     @ (if ListParams_RecordType p \<noteq> [] \<and> key = ''record_type'' then [ListParams_RecordType p] else [])"
proof -
  obtain v where v: "ListParams_ToURLValues p common = Inr v"
    using assms(1) by (simp add: ListParams_ToURLValues_def Let_def)
  have "Inr payload = RecordsService_List_payload common p"
    using assms(2) by simp
  then show ?thesis
    unfolding RecordsService_List_payload_def v assms(1) Let_def sum.case option.case sum.inject
    by (simp only: vals_if_Add vals_ToURLValues [OF v] append_assoc)
qed

section \<open>Decimal strings\<close>

lemma Itoa_0: "Itoa 0 = ''0''"
  by (simp add: Itoa_def formatNat.simps digit_def)

lemma digit_cases:
  "d < 10 \<Longrightarrow>
     d = 0 \<or> d = 1 \<or> d = 2 \<or> d = 3 \<or> d = 4 \<or> d = 5 \<or> d = 6 \<or> d = 7 \<or> d = 8 \<or> d = (9::nat)"
  by arith

lemma digit_value_digit: "d < 10 \<Longrightarrow> digit_value (digit d) = d"
  using digit_cases [of d] by (auto simp: digit_value_def digit_def)

lemma digit_not_minus: "d < 10 \<Longrightarrow> digit d \<noteq> CHR ''-''"
  using digit_cases [of d] by (auto simp: digit_def)

lemma nat_of_decimal_snoc: "nat_of_decimal (s @ [c]) = 10 * nat_of_decimal s + digit_value c"
  by (simp add: nat_of_decimal_def)

lemma nat_of_decimal_formatNat: "nat_of_decimal (formatNat n) = n"
proof (induction n rule: formatNat.induct)
  case (1 n)
  show ?case
  proof (cases "n < 10")
    case True
    then show ?thesis
      by (simp add: formatNat.simps [of n] nat_of_decimal_def digit_value_digit)
  next
    case False
    with 1 show ?thesis
      by (simp add: formatNat.simps [of n] nat_of_decimal_snoc digit_value_digit)
  qed
qed

lemma formatNat_first: "\<exists>c ds. formatNat n = c # ds \<and> c \<noteq> CHR ''-''"
proof (induction n rule: formatNat.induct)
  case (1 n)
  show ?case
  proof (cases "n < 10")
    case True
    then show ?thesis
      by (simp add: formatNat.simps [of n] digit_not_minus)
  next
    case False
    with 1 obtain c ds where "formatNat (n div 10) = c # ds" "c \<noteq> CHR ''-''"
      by blast
    with False show ?thesis
      by (simp add: formatNat.simps [of n])
  qed
qed

lemma int_of_decimal_Itoa: "int_of_decimal (Itoa i) = sint i"
proof (cases "sint i < 0")
  case True
  then show ?thesis
    by (simp add: Itoa_def int_of_decimal_def nat_of_decimal_formatNat)
next
  case False
  obtain c ds where "formatNat (nat (sint i)) = c # ds" "c \<noteq> CHR ''-''"
    using formatNat_first by blast
  with False nat_of_decimal_formatNat [of "nat (sint i)"] show ?thesis
    by (simp add: Itoa_def int_of_decimal_def)
qed

section \<open>Error texts\<close>

lemma Errorf_s_contains: "sublist x (error_text (Errorf_s pre x))"
  by (simp add: Errorf_s_def)

section \<open>The keys and values of the other payloads\<close>

lemma Has_ToURLValues:
  assumes "ListParams_ToURLValues p common = Inr v"
  shows "Values_Has v key =
     (Values_Has common key
      \<or> ListParams_Offset p \<noteq> [] \<and> key = ''offset''
      \<or> ListParams_Length p \<noteq> [] \<and> key = ''length''
      \<or> ListParams_SubDomain p \<noteq> [] \<and> key = ''sub_domain''
      \<or> ListParams_RecordType p \<noteq> [] \<and> key = ''record_type''
      \<or> ListParams_RecordLine p \<noteq> [] \<and> key = ''record_line''
      \<or> ListParams_RecordLineID p \<noteq> [] \<and> key = ''record_line_id''
      \<or> ListParams_keyword p \<noteq> [] \<and> key = ''keyword'')"
proof (cases "ListParams_RecordParam p")
  case None
  with assms show ?thesis
    by (simp add: ListParams_ToURLValues_def)
next
  case (Some rp)
  have "Inr v = ListParams_ToURLValues p common"
    using assms by simp
  then show ?thesis
    unfolding ListParams_ToURLValues_def Let_def Some RecordParam_ToURLValues_def
      option.case sum.inject
    by (simp only: Has_if_Add disj_assoc)
qed

lemma Has_List_payload:
  assumes "ListParams_RecordParam p = Some rp"
    and "RecordsService_List_payload common p = Inr payload"
  shows "Values_Has payload key =
     (Values_Has common key
      \<or> ListParams_Offset p \<noteq> [] \<and> key = ''offset''
      \<or> ListParams_Length p \<noteq> [] \<and> key = ''length''
      \<or> ListParams_SubDomain p \<noteq> [] \<and> key = ''sub_domain''
      \<or> ListParams_RecordType p \<noteq> [] \<and> key = ''record_type''
      \<or> ListParams_RecordLine p \<noteq> [] \<and> key = ''record_line''
      \<or> ListParams_RecordLineID p \<noteq> [] \<and> key = ''record_line_id''
      \<or> ListParams_keyword p \<noteq> [] \<and> key = ''keyword''
      \<or> RecordParam_DomainID rp \<noteq> [] \<and> key = ''domain_id''
      \<or> RecordParam_Domain rp \<noteq> [] \<and> key = ''domain''
      \<or> ListParams_RecordType p \<noteq> [] \<and> key = ''record_type'')"
proof -
  obtain v where v: "ListParams_ToURLValues p common = Inr v"
    using assms(1) by (simp add: ListParams_ToURLValues_def Let_def)
  have "Inr payload = RecordsService_List_payload common p"
    using assms(2) by simp
  then show ?thesis
    unfolding RecordsService_List_payload_def v assms(1) Let_def sum.case option.case sum.inject
    by (simp only: Has_if_Add Has_ToURLValues [OF v] disj_assoc)
qed

lemma List_payload_contents:
  assumes "ListParams_RecordParam p = Some rp"
  shows "\<exists>payload.
     RecordsService_List_payload common p = Inr payload
     \<and> vals payload key =
         vals common key
         @ (if ListParams_Offset p \<noteq> [] \<and> key = ''offset'' then [ListParams_Offset p] else [])
         @ (if ListParams_Length p \<noteq> [] \<and> key = ''length'' then [ListParams_Length p] else [])
         @ (if ListParams_SubDomain p \<noteq> [] \<and> key = ''sub_domain''
            then [ListParams_SubDomain p] else [])
         @ (if ListParams_RecordType p \<noteq> [] \<and> key = ''record_type''
            then [ListParams_RecordType p] else [])
         @ (if ListParams_RecordLine p \<noteq> [] \<and> key = ''record_line''
            then [ListParams_RecordLine p] else [])
         @ (if ListParams_RecordLineID p \<noteq> [] \<and> key = ''record_line_id''
            then [ListParams_RecordLineID p] else [])
         @ (if ListParams_keyword p \<noteq> [] \<and> key = ''keyword'' then [ListParams_keyword p] else [])
         @ (if RecordParam_DomainID rp \<noteq> [] \<and> key = ''domain_id''
            then [RecordParam_DomainID rp] else [])
         @ (if RecordParam_Domain rp \<noteq> [] \<and> key = ''domain'' then [RecordParam_Domain rp] else [])
         @ (if ListParams_RecordType p \<noteq> [] \<and> key = ''record_type''
            then [ListParams_RecordType p] else [])
     \<and> Values_Has payload key =
         (Values_Has common key
          \<or> ListParams_Offset p \<noteq> [] \<and> key = ''offset''
          \<or> ListParams_Length p \<noteq> [] \<and> key = ''length''
          \<or> ListParams_SubDomain p \<noteq> [] \<and> key = ''sub_domain''
          \<or> ListParams_RecordType p \<noteq> [] \<and> key = ''record_type''
          \<or> ListParams_RecordLine p \<noteq> [] \<and> key = ''record_line''
          \<or> ListParams_RecordLineID p \<noteq> [] \<and> key = ''record_line_id''
          \<or> ListParams_keyword p \<noteq> [] \<and> key = ''keyword''
          \<or> RecordParam_DomainID rp \<noteq> [] \<and> key = ''domain_id''
          \<or> RecordParam_Domain rp \<noteq> [] \<and> key = ''domain''
          \<or> ListParams_RecordType p \<noteq> [] \<and> key = ''record_type'')"
proof -
  obtain payload where pl: "RecordsService_List_payload common p = Inr payload"
    using List_payload_Inr [OF assms] by blast
  show ?thesis
  proof (intro exI conjI)
    show "RecordsService_List_payload common p = Inr payload"
      by (rule pl)
  qed (rule vals_List_payload [OF assms pl] Has_List_payload [OF assms pl])+
qed

lemma vals_Get_payload:
  "vals (RecordsService_Get_payload common domain domainId recordID) key =
     vals common key
     @ (if key = ''domain'' then [domain] else [])
     @ (if key = ''domain_id'' then [domainId] else [])
     @ (if key = ''record_id'' then [Itoa recordID] else [])"
  unfolding RecordsService_Get_payload_def Let_def
  by (simp only: vals_Add append_assoc)

lemma Has_Get_payload:
  "Values_Has (RecordsService_Get_payload common domain domainId recordID) key =
     (Values_Has common key \<or> key = ''domain'' \<or> key = ''domain_id'' \<or> key = ''record_id'')"
  unfolding RecordsService_Get_payload_def Let_def
  by (simp only: Has_Add disj_assoc)

lemma vals_Delete_payload:
  "vals (RecordsService_Delete_payload common domainId domain recordID) key =
     vals common key
     @ (if key = ''domain_id'' then [Itoa domainId] else [])
     @ (if key = ''domain'' then [domain] else [])
     @ (if key = ''record_id'' then [recordID] else [])"
  unfolding RecordsService_Delete_payload_def Let_def
  by (simp only: vals_Add append_assoc)

lemma Has_Delete_payload:
  "Values_Has (RecordsService_Delete_payload common domainId domain recordID) key =
     (Values_Has common key \<or> key = ''domain_id'' \<or> key = ''domain'' \<or> key = ''record_id'')"
  unfolding RecordsService_Delete_payload_def Let_def
  by (simp only: Has_Add disj_assoc)

lemma vals_Domain_Create_payload:
  "vals (DomainsService_Create_payload common domainAttributes) key =
     (if key = ''is_mark'' then [Domain_IsMark domainAttributes]
      else if key = ''group_id'' then [Number_String (Domain_GroupID domainAttributes)]
      else if key = ''domain'' then [Domain_Name domainAttributes]
      else vals common key)"
  unfolding DomainsService_Create_payload_def Let_def
  by (simp only: vals_Set)

lemma Has_Domain_Create_payload:
  "Values_Has (DomainsService_Create_payload common domainAttributes) key =
     (key = ''is_mark'' \<or> key = ''group_id'' \<or> key = ''domain'' \<or> Values_Has common key)"
  unfolding DomainsService_Create_payload_def Let_def
  by (simp only: Has_Set disj_assoc)

lemma vals_Domain_Get_payload:
  "vals (DomainsService_Get_payload common id' domain) key =
     (if key = ''domain'' then [domain]
      else if key = ''domain_id'' then [id']
      else vals common key)"
  unfolding DomainsService_Get_payload_def Let_def
  by (simp only: vals_Set)

lemma Has_Domain_Get_payload:
  "Values_Has (DomainsService_Get_payload common id' domain) key =
     (key = ''domain'' \<or> key = ''domain_id'' \<or> Values_Has common key)"
  unfolding DomainsService_Get_payload_def Let_def
  by (simp only: Has_Set disj_assoc)

lemma vals_Domain_Delete_payload:
  "vals (DomainsService_Delete_payload common id' domain) key =
     (if key = ''domain'' then [domain]
      else if key = ''domain_id'' then [id']
      else vals common key)"
  unfolding DomainsService_Delete_payload_def Let_def
  by (simp only: vals_Set)

lemma Has_Domain_Delete_payload:
  "Values_Has (DomainsService_Delete_payload common id' domain) key =
     (key = ''domain'' \<or> key = ''domain_id'' \<or> Values_Has common key)"
  unfolding DomainsService_Delete_payload_def Let_def
  by (simp only: Has_Set disj_assoc)

section \<open>Status codes of \<open>Record.List\<close>\<close>

text \<open>
  C1.  When \<open>RecordsService.List\<close> reaches the transport and the transport returns no
  error, a status code \<open>1\<close> or \<open>10\<close> makes it return the decoded records, the transport's
  response and no error; every other code makes it return nil records and an error whose
  text contains the message the server sent.
\<close>

theorem List_status_codes:
  assumes "RecordsService_List_payload common p = Inr payload"
    and "post methodRecordList payload = (res, None, w)"
  shows "(Status_Code (recordsWrapper_Status w) = ''1''
            \<or> Status_Code (recordsWrapper_Status w) = ''10''
          \<longrightarrow> RecordsService_List common post p = Inr (recordsWrapper_Records w, res, None))
       \<and> (Status_Code (recordsWrapper_Status w) \<noteq> ''1''
            \<and> Status_Code (recordsWrapper_Status w) \<noteq> ''10''
          \<longrightarrow> (\<exists>e. RecordsService_List common post p = Inr (None, None, Some e)
                   \<and> sublist (Status_Message (recordsWrapper_Status w)) (error_text e)))"
  using assms by (auto simp: RecordsService_List_def Errorf_s_contains)

theorem List_status_codes_witness:
  "(\<exists>payload. RecordsService_List_payload [''login_token'' \<mapsto> [''1,abc'']]
       \<lparr>ListParams_RecordParam = Some \<lparr>RecordParam_DomainID = ''7'', RecordParam_Domain = ''example.com''\<rparr>,
        ListParams_Offset = [], ListParams_Length = [], ListParams_SubDomain = [],
        ListParams_RecordType = ''A'', ListParams_RecordLine = [], ListParams_RecordLineID = [],
        ListParams_keyword = []\<rparr> = Inr payload)
   \<and> RecordsService_List [''login_token'' \<mapsto> [''1,abc'']]
       (\<lambda>m pl. (Some (200::nat), None, \<lparr>recordsWrapper_Status = \<lparr>Status_Code = ''10'', Status_Message = ''No records''\<rparr>,
        recordsWrapper_Info = DomainInfo_zero, recordsWrapper_Records = Some []\<rparr>))
       \<lparr>ListParams_RecordParam = Some \<lparr>RecordParam_DomainID = ''7'', RecordParam_Domain = ''example.com''\<rparr>,
        ListParams_Offset = [], ListParams_Length = [], ListParams_SubDomain = [],
        ListParams_RecordType = ''A'', ListParams_RecordLine = [], ListParams_RecordLineID = [],
        ListParams_keyword = []\<rparr>
     = Inr (Some [], Some 200, None)
   \<and> (\<exists>e. RecordsService_List [''login_token'' \<mapsto> [''1,abc'']]
       (\<lambda>m pl. (Some (200::nat), None, \<lparr>recordsWrapper_Status = \<lparr>Status_Code = ''6'', Status_Message = ''no such domain''\<rparr>,
        recordsWrapper_Info = DomainInfo_zero, recordsWrapper_Records = None\<rparr>))
       \<lparr>ListParams_RecordParam = Some \<lparr>RecordParam_DomainID = ''7'', RecordParam_Domain = ''example.com''\<rparr>,
        ListParams_Offset = [], ListParams_Length = [], ListParams_SubDomain = [],
        ListParams_RecordType = ''A'', ListParams_RecordLine = [], ListParams_RecordLineID = [],
        ListParams_keyword = []\<rparr>
         = Inr (None, None, Some e)
       \<and> sublist ''no such domain'' (error_text e))"
proof -
  let ?C = "[''login_token'' \<mapsto> [''1,abc'']]"
  let ?P = "\<lparr>ListParams_RecordParam = Some \<lparr>RecordParam_DomainID = ''7'', RecordParam_Domain = ''example.com''\<rparr>,
        ListParams_Offset = [], ListParams_Length = [], ListParams_SubDomain = [],
        ListParams_RecordType = ''A'', ListParams_RecordLine = [], ListParams_RecordLineID = [],
        ListParams_keyword = []\<rparr>"
  let ?W10 = "\<lparr>recordsWrapper_Status = \<lparr>Status_Code = ''10'', Status_Message = ''No records''\<rparr>,
        recordsWrapper_Info = DomainInfo_zero, recordsWrapper_Records = Some []\<rparr>"
  let ?W6 = "\<lparr>recordsWrapper_Status = \<lparr>Status_Code = ''6'', Status_Message = ''no such domain''\<rparr>,
        recordsWrapper_Info = DomainInfo_zero, recordsWrapper_Records = None\<rparr>"
  obtain payload where pl: "RecordsService_List_payload ?C ?P = Inr payload"
    using List_payload_Inr [of ?P "\<lparr>RecordParam_DomainID = ''7'', RecordParam_Domain = ''example.com''\<rparr>" ?C] by auto
  have ok: "(\<lambda>m pl. (Some (200::nat), None, ?W10)) methodRecordList payload
              = (Some 200, None, ?W10)"
    by simp
  have bad: "(\<lambda>m pl. (Some (200::nat), None, ?W6)) methodRecordList payload
              = (Some 200, None, ?W6)"
    by simp
  show ?thesis
    using pl List_status_codes [OF pl ok] List_status_codes [OF pl bad] by simp
qed

section \<open>Domain operations that do not read the status\<close>

text \<open>
  C2.  \<open>DomainsService.Create\<close>, \<open>Get\<close> and \<open>Delete\<close> do not look at the status code:
  whenever the transport returns no error, \<open>Create\<close> and \<open>Get\<close> return the decoded domain
  with the transport's response and a nil error, and \<open>Delete\<close> returns the transport's
  response and a nil error, whatever the status in the envelope says.
\<close>

theorem Domain_status_unchecked:
  "(post methodDomainCreate (DomainsService_Create_payload common domainAttributes)
       = (res, None, w)
     \<longrightarrow> DomainsService_Create common post domainAttributes
           = (domainWrapper_Domain w, res, None))
   \<and> (post methodDomainInfo (DomainsService_Get_payload common id' domain) = (res, None, w)
     \<longrightarrow> DomainsService_Get common post id' domain = (domainWrapper_Domain w, res, None))
   \<and> (post methodDomainRemove (DomainsService_Delete_payload common id' domain)
         = (res, None, w)
     \<longrightarrow> DomainsService_Delete common post id' domain = (res, None))"
  by (simp add: DomainsService_Create_def DomainsService_Get_def DomainsService_Delete_def)

theorem Domain_status_unchecked_witness:
  "Status_Code (domainWrapper_Status
      \<lparr>domainWrapper_Status = \<lparr>Status_Code = ''6'', Status_Message = ''Invalid domain''\<rparr>,
        domainWrapper_Info = DomainInfo_zero, domainWrapper_Domain = Domain_zero\<rparr>) \<noteq> ''1''
   \<and> DomainsService_Create [''login_token'' \<mapsto> [''1,abc'']]
       (\<lambda>m pl. (Some (200::nat), None, \<lparr>domainWrapper_Status = \<lparr>Status_Code = ''6'', Status_Message = ''Invalid domain''\<rparr>,
        domainWrapper_Info = DomainInfo_zero, domainWrapper_Domain = Domain_zero\<rparr>))
       (Domain_zero\<lparr>Domain_Name := ''example.com''\<rparr>)
     = (Domain_zero, Some 200, None)
   \<and> DomainsService_Get [''login_token'' \<mapsto> [''1,abc'']]
       (\<lambda>m pl. (Some (200::nat), None, \<lparr>domainWrapper_Status = \<lparr>Status_Code = ''6'', Status_Message = ''Invalid domain''\<rparr>,
        domainWrapper_Info = DomainInfo_zero, domainWrapper_Domain = Domain_zero\<rparr>))
       ''7'' ''example.com''
     = (Domain_zero, Some 200, None)
   \<and> DomainsService_Delete [''login_token'' \<mapsto> [''1,abc'']]
       (\<lambda>m pl. (Some (200::nat), None, \<lparr>domainWrapper_Status = \<lparr>Status_Code = ''6'', Status_Message = ''Invalid domain''\<rparr>,
        domainWrapper_Info = DomainInfo_zero, domainWrapper_Domain = Domain_zero\<rparr>))
       ''7'' ''example.com''
     = (Some 200, None)"
  using Domain_status_unchecked [where common = "[''login_token'' \<mapsto> [''1,abc'']]"
      and post = "(\<lambda>m pl. (Some (200::nat), None, \<lparr>domainWrapper_Status = \<lparr>Status_Code = ''6'', Status_Message = ''Invalid domain''\<rparr>,
        domainWrapper_Info = DomainInfo_zero, domainWrapper_Domain = Domain_zero\<rparr>))"
      and res = "Some 200"
      and w = "\<lparr>domainWrapper_Status = \<lparr>Status_Code = ''6'', Status_Message = ''Invalid domain''\<rparr>,
        domainWrapper_Info = DomainInfo_zero, domainWrapper_Domain = Domain_zero\<rparr>"
      and domainAttributes = "(Domain_zero\<lparr>Domain_Name := ''example.com''\<rparr>)"
      and id' = "''7''" and domain = "''example.com''"]
  by simp

section \<open>The weight of a record\<close>

text \<open>
  C3.  \<open>RecordsService.Create\<close> and \<open>RecordsService.Update\<close> write the key \<open>weight\<close> by
  presence of the pointer, not by its number: over common parameters that have no
  \<open>weight\<close> of their own, a nil \<open>Weight\<close> leaves the payload without the key, and a pointer
  to 0 gives the key the one value \<open>0\<close>.
\<close>

theorem weight_unset_or_zero:
  assumes "\<not> Values_Has common ''weight''"
  shows "(Record_Weight r = None \<longrightarrow>
            \<not> Values_Has (RecordsService_Create_payload common domain domainId r) ''weight''
          \<and> \<not> Values_Has (RecordsService_Update_payload common domainId domain recordID r) ''weight'')
       \<and> (Record_Weight r = Some 0 \<longrightarrow>
            Values_Has (RecordsService_Create_payload common domain domainId r) ''weight''
          \<and> vals (RecordsService_Create_payload common domain domainId r) ''weight'' = [''0'']
          \<and> Values_Has (RecordsService_Update_payload common domainId domain recordID r) ''weight''
          \<and> vals (RecordsService_Update_payload common domainId domain recordID r) ''weight'' = [''0''])"
  using assms
  by (simp add: vals_Create_payload Has_Create_payload vals_Update_payload Has_Update_payload
        vals_absent Itoa_0)

theorem weight_unset_or_zero_witness:
  "\<not> Values_Has [''login_token'' \<mapsto> [''1,abc'']] ''weight''
   \<and> Record_Weight Record_zero = None
   \<and> \<not> Values_Has (RecordsService_Create_payload [''login_token'' \<mapsto> [''1,abc'']]
          ''example.com'' ''7'' Record_zero) ''weight''
   \<and> \<not> Values_Has (RecordsService_Update_payload [''login_token'' \<mapsto> [''1,abc'']]
          ''7'' ''example.com'' ''42'' Record_zero) ''weight''
   \<and> Record_Weight (Record_zero\<lparr>Record_Weight := Some 0\<rparr>) = Some 0
   \<and> vals (RecordsService_Create_payload [''login_token'' \<mapsto> [''1,abc'']]
          ''example.com'' ''7'' (Record_zero\<lparr>Record_Weight := Some 0\<rparr>)) ''weight'' = [''0'']
   \<and> vals (RecordsService_Update_payload [''login_token'' \<mapsto> [''1,abc'']]
          ''7'' ''example.com'' ''42'' (Record_zero\<lparr>Record_Weight := Some 0\<rparr>)) ''weight'' = [''0'']"
proof -
  have absent: "\<not> Values_Has [''login_token'' \<mapsto> [''1,abc'']] ''weight''"
    by (simp add: Values_Has_def)
  have unset: "Record_Weight Record_zero = None"
    by (simp add: Record_zero_def)
  have zero: "Record_Weight (Record_zero\<lparr>Record_Weight := Some 0\<rparr>) = Some 0"
    by simp
  show ?thesis
    using absent unset zero
      weight_unset_or_zero [OF absent, where r = Record_zero and domain = "''example.com''"
        and domainId = "''7''" and recordID = "''42''"]
      weight_unset_or_zero [OF absent, where r = "Record_zero\<lparr>Record_Weight := Some 0\<rparr>"
        and domain = "''example.com''" and domainId = "''7''" and recordID = "''42''"]
    by simp
qed

section \<open>Optional record attributes\<close>

text \<open>
  C4.  In the payloads of \<open>RecordsService.Create\<close> and \<open>RecordsService.Update\<close>, over
  common parameters that have none of these keys, the key of each optional attribute
  (\<open>sub_domain\<close>, \<open>record_type\<close>, \<open>record_line\<close>, \<open>record_line_id\<close>, \<open>value\<close>, \<open>mx\<close>,
  \<open>ttl\<close>, \<open>status\<close>) is present exactly when the field is not empty; it then holds the
  field as its one value, and an empty field leaves no entry at all (so never an empty
  string).
\<close>

theorem optional_fields_iff_nonempty:
  assumes "\<forall>(key, x) \<in> set (optional_record_fields r). \<not> Values_Has common key"
  shows "\<forall>(key, x) \<in> set (optional_record_fields r).
           (Values_Has (RecordsService_Create_payload common domain domainId r) key
              \<longleftrightarrow> x \<noteq> [])
         \<and> vals (RecordsService_Create_payload common domain domainId r) key
             = (if x = [] then [] else [x])
         \<and> (Values_Has (RecordsService_Update_payload common domainId domain recordID r) key
              \<longleftrightarrow> x \<noteq> [])
         \<and> vals (RecordsService_Update_payload common domainId domain recordID r) key
             = (if x = [] then [] else [x])"
  using assms
  by (simp add: optional_record_fields_def vals_Create_payload Has_Create_payload
        vals_Update_payload Has_Update_payload vals_absent)

theorem optional_fields_iff_nonempty_witness:
  "\<not> Values_Has [''login_token'' \<mapsto> [''1,abc'']] ''sub_domain''
   \<and> \<not> Values_Has [''login_token'' \<mapsto> [''1,abc'']] ''mx''
   \<and> vals (RecordsService_Create_payload [''login_token'' \<mapsto> [''1,abc'']] ''example.com'' ''7''
        (Record_zero\<lparr>Record_Name := ''www'', Record_Type := ''A'', Record_Value := ''192.0.2.1''\<rparr>)) ''sub_domain'' = [''www'']
   \<and> \<not> Values_Has (RecordsService_Create_payload [''login_token'' \<mapsto> [''1,abc'']] ''example.com'' ''7''
        (Record_zero\<lparr>Record_Name := ''www'', Record_Type := ''A'', Record_Value := ''192.0.2.1''\<rparr>)) ''mx''
   \<and> vals (RecordsService_Update_payload [''login_token'' \<mapsto> [''1,abc'']] ''7'' ''example.com'' ''42''
        (Record_zero\<lparr>Record_Name := ''www'', Record_Type := ''A'', Record_Value := ''192.0.2.1''\<rparr>)) ''value'' = [''192.0.2.1'']
   \<and> \<not> Values_Has (RecordsService_Update_payload [''login_token'' \<mapsto> [''1,abc'']] ''7'' ''example.com'' ''42''
        (Record_zero\<lparr>Record_Name := ''www'', Record_Type := ''A'', Record_Value := ''192.0.2.1''\<rparr>)) ''ttl''"
proof -
  let ?C = "[''login_token'' \<mapsto> [''1,abc'']]"
  let ?R = "(Record_zero\<lparr>Record_Name := ''www'', Record_Type := ''A'', Record_Value := ''192.0.2.1''\<rparr>)"
  have absent: "\<forall>(key, x) \<in> set (optional_record_fields ?R). \<not> Values_Has ?C key"
    by (simp add: optional_record_fields_def Values_Has_def)
  have fields: "Record_Name ?R = ''www''" "Record_Value ?R = ''192.0.2.1''"
    "Record_MX ?R = []" "Record_TTL ?R = []"
    by (simp_all add: Record_zero_def)
  show ?thesis
    using fields
      optional_fields_iff_nonempty [OF absent, where domain = "''example.com''"
        and domainId = "''7''" and recordID = "''42''"]
    by (simp add: optional_record_fields_def Values_Has_def)
qed

section \<open>Optional domain attributes\<close>

text \<open>
  C5, as the code has it.  \<open>DomainsService.Create\<close> sets \<open>group_id\<close> and \<open>is_mark\<close> with
  \<open>payload.Set\<close> and no guard: both keys are always in the payload, each with the one
  value the attribute has, which is the empty string when the attribute was left out.
\<close>

theorem Domain_Create_sends_group_and_mark:
  "Values_Has (DomainsService_Create_payload common domainAttributes) ''group_id''
   \<and> vals (DomainsService_Create_payload common domainAttributes) ''group_id''
       = [Number_String (Domain_GroupID domainAttributes)]
   \<and> Values_Has (DomainsService_Create_payload common domainAttributes) ''is_mark''
   \<and> vals (DomainsService_Create_payload common domainAttributes) ''is_mark''
       = [Domain_IsMark domainAttributes]"
  by (simp add: DomainsService_Create_payload_def Let_def)

text \<open>
  C5 as it is written fails: for a domain given by its name alone, group and mark left
  out, over empty common parameters, \<open>group_id\<close> and \<open>is_mark\<close> are keys of the payload,
  each with the empty string as its value.
\<close>

theorem Domain_Create_omitted_keys_present:
  "Domain_GroupID (Domain_zero\<lparr>Domain_Name := ''example.com''\<rparr>) = []
   \<and> Domain_IsMark (Domain_zero\<lparr>Domain_Name := ''example.com''\<rparr>) = []
   \<and> Values_Has (DomainsService_Create_payload Map.empty
         (Domain_zero\<lparr>Domain_Name := ''example.com''\<rparr>)) ''group_id''
   \<and> vals (DomainsService_Create_payload Map.empty
         (Domain_zero\<lparr>Domain_Name := ''example.com''\<rparr>)) ''group_id'' = [[]]
   \<and> Values_Has (DomainsService_Create_payload Map.empty
         (Domain_zero\<lparr>Domain_Name := ''example.com''\<rparr>)) ''is_mark''
   \<and> vals (DomainsService_Create_payload Map.empty
         (Domain_zero\<lparr>Domain_Name := ''example.com''\<rparr>)) ''is_mark'' = [[]]"
  by (simp add: DomainsService_Create_payload_def Let_def Domain_zero_def Number_String_def)

section \<open>Common parameters first\<close>




section \<open>Fetching one record\<close>

text \<open>
  C7.  \<open>RecordsService.Get\<close> adds the record ID to the payload under \<open>record_id\<close> as
  \<open>strconv.Itoa\<close> prints it, a decimal string that reads back as the same integer.  When
  the transport returns no error and the status code is not \<open>1\<close>, it returns an error
  whose text contains the message the server sent.
\<close>

theorem Get_record_id_and_status:
  "vals (RecordsService_Get_payload common domain domainId recordID) ''record_id''
     = vals common ''record_id'' @ [Itoa recordID]
   \<and> int_of_decimal (Itoa recordID) = sint recordID
   \<and> (post methodRecordInfo (RecordsService_Get_payload common domain domainId recordID)
          = (res, None, w)
        \<and> Status_Code (recordWrapper_Status w) \<noteq> ''1''
      \<longrightarrow> (\<exists>e. RecordsService_Get common post domain domainId recordID
                  = (recordWrapper_Record w, None, Some e)
               \<and> sublist (Status_Message (recordWrapper_Status w)) (error_text e)))"
  by (simp add: RecordsService_Get_payload_def Let_def int_of_decimal_Itoa
        RecordsService_Get_def Errorf_s_contains)

theorem Get_record_id_and_status_witness:
  "vals (RecordsService_Get_payload [''login_token'' \<mapsto> [''1,abc'']] ''example.com'' ''7'' 42)
      ''record_id'' = [''42'']
   \<and> Status_Code (recordWrapper_Status
        \<lparr>recordWrapper_Status = \<lparr>Status_Code = ''6'', Status_Message = ''no such record''\<rparr>,
        recordWrapper_Info = DomainInfo_zero, recordWrapper_Record = Record_zero\<rparr>) \<noteq> ''1''
   \<and> (\<exists>e. RecordsService_Get [''login_token'' \<mapsto> [''1,abc'']]
        (\<lambda>m pl. (Some (200::nat), None, \<lparr>recordWrapper_Status = \<lparr>Status_Code = ''6'', Status_Message = ''no such record''\<rparr>,
        recordWrapper_Info = DomainInfo_zero, recordWrapper_Record = Record_zero\<rparr>))
        ''example.com'' ''7'' 42 = (Record_zero, None, Some e)
      \<and> sublist ''no such record'' (error_text e))"
proof -
  have forty_two: "Itoa 42 = ''42''"
    by (simp add: Itoa_def formatNat.simps digit_def)
  have none: "vals [''login_token'' \<mapsto> [''1,abc'']] ''record_id'' = []"
    by (simp add: vals_def)
  show ?thesis
    using forty_two none
      Get_record_id_and_status [where common = "[''login_token'' \<mapsto> [''1,abc'']]"
        and domain = "''example.com''" and domainId = "''7''" and recordID = 42
        and post = "(\<lambda>m pl. (Some (200::nat), None, \<lparr>recordWrapper_Status = \<lparr>Status_Code = ''6'', Status_Message = ''no such record''\<rparr>,
        recordWrapper_Info = DomainInfo_zero, recordWrapper_Record = Record_zero\<rparr>))"
        and res = "Some 200"
        and w = "\<lparr>recordWrapper_Status = \<lparr>Status_Code = ''6'', Status_Message = ''no such record''\<rparr>,
        recordWrapper_Info = DomainInfo_zero, recordWrapper_Record = Record_zero\<rparr>"]
    by simp
qed

section \<open>Method names\<close>

text \<open>
  C8.  Each operation posts under its own method name.  Against a transport that fails
  with the method name it was called with as the error text, every operation returns that
  error (and the response the transport gave), and the text is the name of the wire
  contract: \<open>Domain.List\<close>, \<open>Domain.Create\<close>,
  \<open>Domain.Info\<close>, \<open>Domain.Remove\<close>, \<open>Record.List\<close>, \<open>Record.Create\<close>, \<open>Record.Info\<close>,
  \<open>Record.Modify\<close> and \<open>Record.Remove\<close>.
\<close>

theorem method_names:
  "DomainsService_List common (\<lambda>m pl. (res, Some (Error m), w1))
     = (None, res, Some (Error ''Domain.List''))
   \<and> DomainsService_Create common (\<lambda>m pl. (res, Some (Error m), w2)) d
     = (Domain_zero, res, Some (Error ''Domain.Create''))
   \<and> DomainsService_Get common (\<lambda>m pl. (res, Some (Error m), w2)) id' domain
     = (Domain_zero, res, Some (Error ''Domain.Info''))
   \<and> DomainsService_Delete common (\<lambda>m pl. (res, Some (Error m), w2)) id' domain
     = (res, Some (Error ''Domain.Remove''))
   \<and> (ListParams_RecordParam p = Some rp
      \<longrightarrow> RecordsService_List common (\<lambda>m pl. (res, Some (Error m), w3)) p
          = Inr (None, res, Some (Error ''Record.List'')))
   \<and> RecordsService_Create common (\<lambda>m pl. (res, Some (Error m), w4)) domain domainId r
     = (Record_zero, res, Some (Error ''Record.Create''))
   \<and> RecordsService_Get common (\<lambda>m pl. (res, Some (Error m), w4)) domain domainId recordID
     = (Record_zero, res, Some (Error ''Record.Info''))
   \<and> RecordsService_Update common (\<lambda>m pl. (res, Some (Error m), w5)) domainId domain
        recordID' r
     = (RecordModify_zero, res, Some (Error ''Record.Modify''))
   \<and> RecordsService_Delete common (\<lambda>m pl. (res, Some (Error m), w4)) domainId' domain
        recordID'
     = (res, Some (Error ''Record.Remove''))"
  by (simp add: DomainsService_List_def DomainsService_Create_def DomainsService_Get_def
        DomainsService_Delete_def RecordsService_List_def RecordsService_Create_def
        RecordsService_Get_def RecordsService_Update_def RecordsService_Delete_def
        methodDomainList_def methodDomainCreate_def methodDomainInfo_def methodDomainRemove_def
        methodRecordList_def methodRecordCreate_def methodRecordInfo_def methodRecordModify_def
        methodRecordRemove_def RecordsService_List_payload_def ListParams_ToURLValues_def Let_def)

theorem method_names_witness:
  "ListParams_RecordParam
       \<lparr>ListParams_RecordParam = Some \<lparr>RecordParam_DomainID = ''7'', RecordParam_Domain = ''example.com''\<rparr>,
        ListParams_Offset = [], ListParams_Length = [], ListParams_SubDomain = [],
        ListParams_RecordType = ''A'', ListParams_RecordLine = [], ListParams_RecordLineID = [],
        ListParams_keyword = []\<rparr>
     = Some \<lparr>RecordParam_DomainID = ''7'', RecordParam_Domain = ''example.com''\<rparr>
   \<and> RecordsService_List [''login_token'' \<mapsto> [''1,abc'']]
       (\<lambda>m pl. (None :: nat option, Some (Error m), \<lparr>recordsWrapper_Status = \<lparr>Status_Code = ''1'', Status_Message = ''OK''\<rparr>,
        recordsWrapper_Info = DomainInfo_zero, recordsWrapper_Records = None\<rparr>))
       \<lparr>ListParams_RecordParam = Some \<lparr>RecordParam_DomainID = ''7'', RecordParam_Domain = ''example.com''\<rparr>,
        ListParams_Offset = [], ListParams_Length = [], ListParams_SubDomain = [],
        ListParams_RecordType = ''A'', ListParams_RecordLine = [], ListParams_RecordLineID = [],
        ListParams_keyword = []\<rparr>
     = Inr (None, None, Some (Error ''Record.List''))"
  using method_names [where common = "[''login_token'' \<mapsto> [''1,abc'']]"
      and p = "\<lparr>ListParams_RecordParam = Some \<lparr>RecordParam_DomainID = ''7'', RecordParam_Domain = ''example.com''\<rparr>,
        ListParams_Offset = [], ListParams_Length = [], ListParams_SubDomain = [],
        ListParams_RecordType = ''A'', ListParams_RecordLine = [], ListParams_RecordLineID = [],
        ListParams_keyword = []\<rparr>"
      and rp = "\<lparr>RecordParam_DomainID = ''7'', RecordParam_Domain = ''example.com''\<rparr>"
      and res = "None :: nat option"
      and ?w3.0 = "\<lparr>recordsWrapper_Status = \<lparr>Status_Code = ''1'', Status_Message = ''OK''\<rparr>,
        recordsWrapper_Info = DomainInfo_zero, recordsWrapper_Records = None\<rparr>",
      THEN conjunct2, THEN conjunct2, THEN conjunct2, THEN conjunct2, THEN conjunct1]
  by simp

section \<open>The record type of a listing\<close>

text \<open>
  C9.  For a \<open>ListParams\<close> with its \<open>RecordParam\<close> set and a record type that is not empty,
  \<open>ListParams.ToURLValues\<close> adds the record type under \<open>record_type\<close> and
  \<open>RecordsService.List\<close> adds it there again: the payload holds it twice, after whatever
  the common parameters had under that key.
\<close>

theorem List_record_type_twice:
  assumes "ListParams_RecordParam p = Some rp" and "ListParams_RecordType p \<noteq> []"
  shows "\<exists>v payload.
           ListParams_ToURLValues p common = Inr v
         \<and> vals v ''record_type'' = vals common ''record_type'' @ [ListParams_RecordType p]
         \<and> RecordsService_List_payload common p = Inr payload
         \<and> vals payload ''record_type''
             = vals common ''record_type'' @ [ListParams_RecordType p, ListParams_RecordType p]"
proof -
  obtain v where v: "ListParams_ToURLValues p common = Inr v"
    using assms(1) by (simp add: ListParams_ToURLValues_def Let_def)
  obtain payload where pl: "RecordsService_List_payload common p = Inr payload"
    using List_payload_Inr [OF assms(1)] by blast
  have "vals v ''record_type'' = vals common ''record_type'' @ [ListParams_RecordType p]"
    using assms(2) by (simp add: vals_ToURLValues [OF v])
  moreover have "vals payload ''record_type''
      = vals common ''record_type'' @ [ListParams_RecordType p, ListParams_RecordType p]"
    using assms(2) by (simp add: vals_List_payload [OF assms(1) pl])
  ultimately show ?thesis
    using v pl by simp
qed

theorem List_record_type_twice_witness:
  "ListParams_RecordType
       \<lparr>ListParams_RecordParam = Some \<lparr>RecordParam_DomainID = ''7'', RecordParam_Domain = ''example.com''\<rparr>,
        ListParams_Offset = [], ListParams_Length = [], ListParams_SubDomain = [],
        ListParams_RecordType = ''A'', ListParams_RecordLine = [], ListParams_RecordLineID = [],
        ListParams_keyword = []\<rparr> \<noteq> []
   \<and> (\<exists>payload. RecordsService_List_payload [''login_token'' \<mapsto> [''1,abc'']]
        \<lparr>ListParams_RecordParam = Some \<lparr>RecordParam_DomainID = ''7'', RecordParam_Domain = ''example.com''\<rparr>,
        ListParams_Offset = [], ListParams_Length = [], ListParams_SubDomain = [],
        ListParams_RecordType = ''A'', ListParams_RecordLine = [], ListParams_RecordLineID = [],
        ListParams_keyword = []\<rparr> = Inr payload
      \<and> vals payload ''record_type'' = [''A'', ''A''])"
proof -
  let ?C = "[''login_token'' \<mapsto> [''1,abc'']]"
  let ?P = "\<lparr>ListParams_RecordParam = Some \<lparr>RecordParam_DomainID = ''7'', RecordParam_Domain = ''example.com''\<rparr>,
        ListParams_Offset = [], ListParams_Length = [], ListParams_SubDomain = [],
        ListParams_RecordType = ''A'', ListParams_RecordLine = [], ListParams_RecordLineID = [],
        ListParams_keyword = []\<rparr>"
  have rp: "ListParams_RecordParam ?P = Some \<lparr>RecordParam_DomainID = ''7'', RecordParam_Domain = ''example.com''\<rparr>"
    by simp
  have ty: "ListParams_RecordType ?P \<noteq> []"
    by simp
  have none: "vals ?C ''record_type'' = []"
    by (simp add: vals_def)
  show ?thesis
    using ty none List_record_type_twice [OF rp ty, of ?C] by auto
qed

section \<open>The response after a status error\<close>

text \<open>
  C10.  In every record operation and in \<open>DomainsService.List\<close>, when the transport
  returns no error and the status code is refused, the operation returns a nil
  \<open>*Response\<close> with the error, whatever response the transport gave.
\<close>

theorem status_error_drops_response:
  "(RecordsService_List_payload common p = Inr payload
      \<and> postL methodRecordList payload = (res, None, wl)
      \<and> Status_Code (recordsWrapper_Status wl) \<noteq> ''1''
      \<and> Status_Code (recordsWrapper_Status wl) \<noteq> ''10''
    \<longrightarrow> (\<exists>e. RecordsService_List common postL p = Inr (None, None, Some e)))
   \<and> (postC methodRecordCreate (RecordsService_Create_payload common domain domainId r)
        = (res, None, wc)
      \<and> Status_Code (recordWrapper_Status wc) \<noteq> ''1''
    \<longrightarrow> (\<exists>e. RecordsService_Create common postC domain domainId r
              = (recordWrapper_Record wc, None, Some e)))
   \<and> (postG methodRecordInfo (RecordsService_Get_payload common domain domainId recordID)
        = (res, None, wg)
      \<and> Status_Code (recordWrapper_Status wg) \<noteq> ''1''
    \<longrightarrow> (\<exists>e. RecordsService_Get common postG domain domainId recordID
              = (recordWrapper_Record wg, None, Some e)))
   \<and> (postU methodRecordModify
          (RecordsService_Update_payload common domainId domain recordID' r) = (res, None, wu)
      \<and> Status_Code (recordModifyWrapper_Status wu) \<noteq> ''1''
    \<longrightarrow> (\<exists>e. RecordsService_Update common postU domainId domain recordID' r
              = (recordModifyWrapper_Record wu, None, Some e)))
   \<and> (postR methodRecordRemove
          (RecordsService_Delete_payload common domainId' domain recordID') = (res, None, wr)
      \<and> Status_Code (recordWrapper_Status wr) \<noteq> ''1''
    \<longrightarrow> (\<exists>e. RecordsService_Delete common postR domainId' domain recordID' = (None, Some e)))
   \<and> (postD methodDomainList (DomainsService_List_payload common) = (res, None, wd)
      \<and> Status_Code (domainListWrapper_Status wd) \<noteq> ''1''
    \<longrightarrow> (\<exists>e. DomainsService_List common postD = (None, None, Some e)))"
  by (simp add: RecordsService_List_def RecordsService_Create_def RecordsService_Get_def
        RecordsService_Update_def RecordsService_Delete_def DomainsService_List_def)

theorem status_error_drops_response_witness:
  "(\<exists>e. RecordsService_List [''login_token'' \<mapsto> [''1,abc'']]
       (\<lambda>m pl. (Some (200::nat), None, \<lparr>recordsWrapper_Status = \<lparr>Status_Code = ''6'', Status_Message = ''no such domain''\<rparr>,
        recordsWrapper_Info = DomainInfo_zero, recordsWrapper_Records = None\<rparr>))
       \<lparr>ListParams_RecordParam = Some \<lparr>RecordParam_DomainID = ''7'', RecordParam_Domain = ''example.com''\<rparr>,
        ListParams_Offset = [], ListParams_Length = [], ListParams_SubDomain = [],
        ListParams_RecordType = ''A'', ListParams_RecordLine = [], ListParams_RecordLineID = [],
        ListParams_keyword = []\<rparr> = Inr (None, None, Some e))
   \<and> (\<exists>e. RecordsService_Create [''login_token'' \<mapsto> [''1,abc'']]
       (\<lambda>m pl. (Some (200::nat), None, \<lparr>recordWrapper_Status = \<lparr>Status_Code = ''6'', Status_Message = ''no such record''\<rparr>,
        recordWrapper_Info = DomainInfo_zero, recordWrapper_Record = Record_zero\<rparr>))
       ''example.com'' ''7'' (Record_zero\<lparr>Record_Name := ''www'', Record_Type := ''A'', Record_Value := ''192.0.2.1''\<rparr>) = (Record_zero, None, Some e))
   \<and> (\<exists>e. RecordsService_Get [''login_token'' \<mapsto> [''1,abc'']]
       (\<lambda>m pl. (Some (200::nat), None, \<lparr>recordWrapper_Status = \<lparr>Status_Code = ''6'', Status_Message = ''no such record''\<rparr>,
        recordWrapper_Info = DomainInfo_zero, recordWrapper_Record = Record_zero\<rparr>))
       ''example.com'' ''7'' 42 = (Record_zero, None, Some e))
   \<and> (\<exists>e. RecordsService_Update [''login_token'' \<mapsto> [''1,abc'']]
       (\<lambda>m pl. (Some (200::nat), None, \<lparr>recordModifyWrapper_Status = \<lparr>Status_Code = ''6'', Status_Message = ''no such record''\<rparr>,
        recordModifyWrapper_Record = RecordModify_zero\<rparr>))
       ''7'' ''example.com'' ''42'' (Record_zero\<lparr>Record_Name := ''www'', Record_Type := ''A'', Record_Value := ''192.0.2.1''\<rparr>) = (RecordModify_zero, None, Some e))
   \<and> (\<exists>e. RecordsService_Delete [''login_token'' \<mapsto> [''1,abc'']]
       (\<lambda>m pl. (Some (200::nat), None, \<lparr>recordWrapper_Status = \<lparr>Status_Code = ''6'', Status_Message = ''no such record''\<rparr>,
        recordWrapper_Info = DomainInfo_zero, recordWrapper_Record = Record_zero\<rparr>))
       7 ''example.com'' ''42'' = (None, Some e))
   \<and> (\<exists>e. DomainsService_List [''login_token'' \<mapsto> [''1,abc'']]
       (\<lambda>m pl. (Some (200::nat), None, \<lparr>domainListWrapper_Status = \<lparr>Status_Code = ''-1'', Status_Message = ''Login failed''\<rparr>,
        domainListWrapper_Info = DomainInfo_zero, domainListWrapper_Domains = None\<rparr>)) = (None, None, Some e))"
proof -
  let ?C = "[''login_token'' \<mapsto> [''1,abc'']]"
  let ?P = "\<lparr>ListParams_RecordParam = Some \<lparr>RecordParam_DomainID = ''7'', RecordParam_Domain = ''example.com''\<rparr>,
        ListParams_Offset = [], ListParams_Length = [], ListParams_SubDomain = [],
        ListParams_RecordType = ''A'', ListParams_RecordLine = [], ListParams_RecordLineID = [],
        ListParams_keyword = []\<rparr>"
  obtain payload where pl: "RecordsService_List_payload ?C ?P = Inr payload"
    using List_payload_Inr [of ?P "\<lparr>RecordParam_DomainID = ''7'', RecordParam_Domain = ''example.com''\<rparr>" ?C] by auto
  show ?thesis
    using pl
      status_error_drops_response [where common = ?C and p = ?P and payload = payload
        and res = "Some 200"
        and postL = "(\<lambda>m pl. (Some (200::nat), None, \<lparr>recordsWrapper_Status = \<lparr>Status_Code = ''6'', Status_Message = ''no such domain''\<rparr>,
        recordsWrapper_Info = DomainInfo_zero, recordsWrapper_Records = None\<rparr>))"
        and wl = "\<lparr>recordsWrapper_Status = \<lparr>Status_Code = ''6'', Status_Message = ''no such domain''\<rparr>,
        recordsWrapper_Info = DomainInfo_zero, recordsWrapper_Records = None\<rparr>"
        and postC = "(\<lambda>m pl. (Some (200::nat), None, \<lparr>recordWrapper_Status = \<lparr>Status_Code = ''6'', Status_Message = ''no such record''\<rparr>,
        recordWrapper_Info = DomainInfo_zero, recordWrapper_Record = Record_zero\<rparr>))"
        and wc = "\<lparr>recordWrapper_Status = \<lparr>Status_Code = ''6'', Status_Message = ''no such record''\<rparr>,
        recordWrapper_Info = DomainInfo_zero, recordWrapper_Record = Record_zero\<rparr>"
        and postG = "(\<lambda>m pl. (Some (200::nat), None, \<lparr>recordWrapper_Status = \<lparr>Status_Code = ''6'', Status_Message = ''no such record''\<rparr>,
        recordWrapper_Info = DomainInfo_zero, recordWrapper_Record = Record_zero\<rparr>))"
        and wg = "\<lparr>recordWrapper_Status = \<lparr>Status_Code = ''6'', Status_Message = ''no such record''\<rparr>,
        recordWrapper_Info = DomainInfo_zero, recordWrapper_Record = Record_zero\<rparr>"
        and postU = "(\<lambda>m pl. (Some (200::nat), None, \<lparr>recordModifyWrapper_Status = \<lparr>Status_Code = ''6'', Status_Message = ''no such record''\<rparr>,
        recordModifyWrapper_Record = RecordModify_zero\<rparr>))"
        and wu = "\<lparr>recordModifyWrapper_Status = \<lparr>Status_Code = ''6'', Status_Message = ''no such record''\<rparr>,
        recordModifyWrapper_Record = RecordModify_zero\<rparr>"
        and postR = "(\<lambda>m pl. (Some (200::nat), None, \<lparr>recordWrapper_Status = \<lparr>Status_Code = ''6'', Status_Message = ''no such record''\<rparr>,
        recordWrapper_Info = DomainInfo_zero, recordWrapper_Record = Record_zero\<rparr>))"
        and wr = "\<lparr>recordWrapper_Status = \<lparr>Status_Code = ''6'', Status_Message = ''no such record''\<rparr>,
        recordWrapper_Info = DomainInfo_zero, recordWrapper_Record = Record_zero\<rparr>"
        and postD = "(\<lambda>m pl. (Some (200::nat), None, \<lparr>domainListWrapper_Status = \<lparr>Status_Code = ''-1'', Status_Message = ''Login failed''\<rparr>,
        domainListWrapper_Info = DomainInfo_zero, domainListWrapper_Domains = None\<rparr>))"
        and wd = "\<lparr>domainListWrapper_Status = \<lparr>Status_Code = ''-1'', Status_Message = ''Login failed''\<rparr>,
        domainListWrapper_Info = DomainInfo_zero, domainListWrapper_Domains = None\<rparr>"
        and domain = "''example.com''" and domainId = "''7''" and domainId' = 7
        and recordID = 42 and recordID' = "''42''"
        and r = "(Record_zero\<lparr>Record_Name := ''www'', Record_Type := ''A'', Record_Value := ''192.0.2.1''\<rparr>)"]
    by simp
qed

end
